theory Spec2Isabelle
  imports Main "HOL-Library.Sublist"
begin

section \<open>The batch submission script \<^verbatim>\<open>db/CuAu/Au/submit_script\<close>\<close>

text \<open>
  The script is static text, so its embedding is the text itself, line by line, and a
  reading of each line the way the shell and the batch scheduler read it: the first line
  is the interpreter line, a line starting with \<^verbatim>\<open>#PBS\<close> is a directive for the
  scheduler (a comment for the shell), and every other non-empty line is a command the
  shell runs, split into words at blanks outside double quotes.
\<close>

definition submit_script :: "string list" where
  \<open>submit_script =
    [''#!/bin/bash'',
     ''#PBS -q glean'',
     ''#PBS -N job'',
     ''#PBS -l nodes=1:ppn=24:haswell'',
     ''#PBS -l walltime=24:00:00'',
     ''#PBS -o run_vasp.out'',
     ''#PBS -e job.err'',
     ''#PBS -V'',
     ''#PBS -M ongsp@ucsd.edu'',
     ''#PBS -m a'',
     ''#PBS -A ong-group'',
     ''#PBS -d /home/ongsp/Li2O/Au'',
     '''',
     ''module load vasp scipy/2.7'',
     ''run_vasp -c "mpirun -machinefile $PBS_NODEFILE -np 24 /opt/vasp/5.4.1/bin/vasp" -z -s /oasis/tscc/scratch/ongsp relax relax'']\<close>

subsection \<open>Reading a line\<close>

text \<open>
  Word splitting with quote removal: \<open>q\<close> tells whether the scan is inside double
  quotes, \<open>w\<close> is the word read so far, reversed.
\<close>

fun sh_scan :: "bool \<Rightarrow> string \<Rightarrow> string \<Rightarrow> string list" where
  "sh_scan q w [] = (if w = [] then [] else [rev w])"
| "sh_scan q w (c # cs) =
     (if c = CHR 0x22 then sh_scan (\<not> q) w cs
      else if c = CHR '' '' \<and> \<not> q then
        (if w = [] then sh_scan q [] cs else rev w # sh_scan q [] cs)
      else sh_scan q (c # w) cs)"

definition sh_words :: "string \<Rightarrow> string list" where
  "sh_words l = sh_scan False [] l"

datatype sh_line =
    Shebang string
  | Directive "string list"
  | Comment string
  | Blank
  | Command "string list"

definition parse_line :: "string \<Rightarrow> sh_line" where
  "parse_line l =
     (if prefix ''#!'' l then Shebang (drop 2 l)
      else if prefix ''#PBS '' l then Directive (sh_words (drop 5 l))
      else if prefix ''#'' l then Comment (drop 1 l)
      else if sh_words l = [] then Blank
      else Command (sh_words l))"

fun directive_of :: "sh_line \<Rightarrow> string list option" where
  "directive_of (Directive ws) = Some ws"
| "directive_of _ = None"

fun command_of :: "sh_line \<Rightarrow> string list option" where
  "command_of (Command ws) = Some ws"
| "command_of _ = None"

definition directives :: "string list \<Rightarrow> string list list" where
  "directives s = List.map_filter (\<lambda>l. directive_of (parse_line l)) s"

definition commands :: "string list \<Rightarrow> string list list" where
  "commands s = List.map_filter (\<lambda>l. command_of (parse_line l)) s"

subsection \<open>Resource requests and the launch line\<close>

fun split_on :: "char \<Rightarrow> string \<Rightarrow> string list" where
  "split_on d [] = [[]]"
| "split_on d (c # cs) =
     (if c = d then [] # split_on d cs
      else (case split_on d cs of [] \<Rightarrow> [[c]] | w # ws \<Rightarrow> (c # w) # ws))"

text \<open>The value of a decimal digit is its place in the row of digits.\<close>

fun position :: "'a \<Rightarrow> 'a list \<Rightarrow> nat option" where
  "position x [] = None"
| "position x (y # ys) = (if x = y then Some 0 else map_option Suc (position x ys))"

definition digit_val :: "char \<Rightarrow> nat option" where
  "digit_val c = position c ''0123456789''"

fun digits_from :: "nat \<Rightarrow> string \<Rightarrow> nat option" where
  "digits_from acc [] = Some acc"
| "digits_from acc (c # cs) =
     (case digit_val c of None \<Rightarrow> None | Some d \<Rightarrow> digits_from (10 * acc + d) cs)"

definition nat_of_string :: "string \<Rightarrow> nat option" where
  "nat_of_string w = (if w = [] then None else digits_from 0 w)"

text \<open>The argument that follows an option \<open>k\<close> on a command line, if there is one.\<close>

fun opt_arg :: "string \<Rightarrow> string list \<Rightarrow> string option" where
  "opt_arg k (a # b # ws) = (if a = k then Some b else opt_arg k (b # ws))"
| "opt_arg k _ = None"

text \<open>
  The resources of all \<^verbatim>\<open>-l\<close> directives: a comma-separated list of
  \<^verbatim>\<open>name=value\<close> items. The value of \<^verbatim>\<open>nodes\<close> is a node specification:
  the node count, then colon-separated properties, of which \<^verbatim>\<open>ppn=\<close> gives the
  processors per node.
\<close>

definition key_value :: "string \<Rightarrow> (string \<times> string) option" where
  "key_value r =
     (case dropWhile (\<lambda>c. c \<noteq> CHR ''='') r of
        [] \<Rightarrow> None
      | _ # v \<Rightarrow> Some (takeWhile (\<lambda>c. c \<noteq> CHR ''='') r, v))"

definition resources :: "string list \<Rightarrow> string list" where
  "resources s =
     concat (List.map_filter
       (\<lambda>ws. if take 1 ws = [''-l''] then Some (concat (map (split_on CHR '','') (drop 1 ws))) else None)
       (directives s))"

fun resource_value :: "string \<Rightarrow> string list \<Rightarrow> string option" where
  "resource_value k [] = None"
| "resource_value k (r # rs) =
     (case key_value r of
        Some (k', v) \<Rightarrow> if k' = k then Some v else resource_value k rs
      | None \<Rightarrow> resource_value k rs)"

definition node_spec :: "string list \<Rightarrow> string list" where
  "node_spec s =
     (case resource_value ''nodes'' (resources s) of
        None \<Rightarrow> []
      | Some v \<Rightarrow> split_on CHR '':'' v)"

definition pbs_nodes :: "string list \<Rightarrow> nat option" where
  "pbs_nodes s = (case node_spec s of [] \<Rightarrow> None | n # _ \<Rightarrow> nat_of_string n)"

definition pbs_ppn :: "string list \<Rightarrow> nat option" where
  "pbs_ppn s = Option.bind (resource_value ''ppn'' (drop 1 (node_spec s))) nat_of_string"

definition requested_cores :: "string list \<Rightarrow> nat option" where
  "requested_cores s =
     (case (pbs_nodes s, pbs_ppn s) of
        (Some n, Some p) \<Rightarrow> Some (n * p)
      | _ \<Rightarrow> None)"

text \<open>
  The launch lines: the \<^verbatim>\<open>-c\<close> argument of every \<^verbatim>\<open>run_vasp\<close> command, split
  into words again (it is the command line \<^verbatim>\<open>run_vasp\<close> is asked to run).
\<close>

definition launch_lines :: "string list \<Rightarrow> string list list" where
  "launch_lines s =
     List.map_filter
       (\<lambda>ws. if take 1 ws = [''run_vasp''] then map_option sh_words (opt_arg ''-c'' ws) else None)
       (commands s)"

definition mpirun_np :: "string list \<Rightarrow> nat option" where
  "mpirun_np s =
     (case launch_lines s of
        [ws] \<Rightarrow> if take 1 ws = [''mpirun''] then Option.bind (opt_arg ''-np'' ws) nat_of_string else None
      | _ \<Rightarrow> None)"

subsection \<open>Shell constructs\<close>



definition sh_job_words :: "string list" where
  "sh_job_words =
     [''wait'', ''kill'', ''killall'', ''pkill'', ''trap'', ''nohup'', ''disown'', ''bg'',
      ''fg'', ''jobs'', ''coproc'', ''timeout'', ''qdel'', ''qsig'']"





text \<open>
  A line has no job control when it holds no \<^verbatim>\<open>&\<close> at all (so nothing is put in the
  background and no \<^verbatim>\<open>&&\<close> chains commands) and, if it is a command, none of its
  words is a command that waits for, signals or traps signals of a process.
\<close>

definition no_job_control :: "string \<Rightarrow> bool" where
  "no_job_control l =
     (CHR ''&'' \<notin> set l \<and>
      (case parse_line l of
         Command ws \<Rightarrow> \<not> list_ex (\<lambda>w. w \<in> set sh_job_words) ws
       | _ \<Rightarrow> True))"

subsection \<open>The parameters the specification lists\<close>

definition directive_flags :: "string list \<Rightarrow> string list" where
  "directive_flags s = concat (map (take 1) (directives s))"

text \<open>
  The specification's list of allocation parameters, as the scheduler's options: queue
  name (\<^verbatim>\<open>-q\<close>), node/core count and walltime (\<^verbatim>\<open>-l\<close>), output and error
  redirection (\<^verbatim>\<open>-o\<close>, \<^verbatim>\<open>-e\<close>), notification policy (\<^verbatim>\<open>-m\<close> for the events,
  \<^verbatim>\<open>-M\<close> for the recipient), working directory (\<^verbatim>\<open>-d\<close>).
\<close>

definition spec_listed_flags :: "string list" where
  "spec_listed_flags = [''-q'', ''-l'', ''-o'', ''-e'', ''-m'', ''-M'', ''-d'']"

section \<open>The notebooks\<close>

text \<open>
  A notebook is embedded as the list of its code cells, in the order of the file, and a
  code cell as the list of its statements (markdown cells, recorded outputs and comments
  carry no code). The statements are Python 2 syntax trees, with two additions for what
  the notebook front end reads itself: a line starting with \<^verbatim>\<open>%\<close> is a magic
  command and a line starting with \<^verbatim>\<open>!\<close> is a shell command line.

  Expressions are kept as written: numeric literals by their text (a leading minus sign
  included), \<^verbatim>\<open>True\<close> and \<^verbatim>\<open>False\<close> as the names they are in Python 2. A call
  holds the called expression, the positional arguments and the keyword arguments. The
  Python 2 \<^verbatim>\<open>print\<close> statement holds the expressions it prints.

  The statement type has the constructors the notebooks use and those whose absence the
  properties below are about: \<^verbatim>\<open>while\<close>, \<^verbatim>\<open>try\<close>, \<^verbatim>\<open>raise\<close>, \<^verbatim>\<open>def\<close> and
  \<^verbatim>\<open>class\<close>.
\<close>

datatype expr =
    Name string
  | Str string
  | Num string
  | Attribute expr string
  | Call expr "expr list" "(string \<times> expr) list"
  | Subscript expr expr
  | ListE "expr list"
  | DictE "(expr \<times> expr) list"
  | Compare expr string expr
  | ListComp expr string expr

datatype stmt =
    Import string
  | ImportFrom string "string list"
  | Assign expr expr
  | ExprStmt expr
  | Print "expr list"
  | ForStmt "string list" expr "stmt list"
  | IfStmt expr "stmt list" "stmt list"
  | WhileStmt expr "stmt list"
  | TryStmt "stmt list" "stmt list"
  | Raise expr
  | FunctionDef string "string list" "stmt list"
  | ClassDef string "string list" "stmt list"
  | Magic string
  | Shell string

subsection \<open>\<^verbatim>\<open>pymatgen_core/pymatgen_core.ipynb\<close>: seventeen code cells\<close>

definition pymatgen_core :: "stmt list list" where
  \<open>pymatgen_core =
    [[ImportFrom ''pymatgen'' [''Structure'', ''Lattice'', ''MPRester'']],

     [Assign (Name ''lattice'') (Call (Name ''Lattice'') [ListE [ListE [Num ''2.8'', Num
         ''0'', Num ''0''], ListE [Num ''0'', Num ''2.8'', Num ''0''], ListE [Num ''0'',
         Num ''0'', Num ''2.8'']]] []),
      Assign (Name ''lattice'') (Call (Attribute (Name ''Lattice'')
          ''from_lengths_and_angles'') [ListE [Num ''2.8'', Num ''2.8'', Num ''2.8''],
          ListE [Num ''90'', Num ''90'', Num ''90'']] []),
      ExprStmt (Call (Attribute (Name ''lattice'') ''cubic'') [Num ''2.8''] []),
      ExprStmt (Call (Attribute (Name ''lattice'') ''hexagonal'') [] [(''a'', Num ''2.8''),
          (''c'', Num ''3.6'')]),
      ExprStmt (Call (Attribute (Name ''lattice'') ''rhombohedral'') [] [(''a'', Num
          ''2.8''), (''alpha'', Num ''60'')]),
      Print [Str ''a = '', Attribute (Name ''lattice'') ''a''],
      Print [Str ''alpha = '', Attribute (Name ''lattice'') ''alpha''],
      Print [Str ''volume = '', Attribute (Name ''lattice'') ''volume'']],

     [Assign (Name ''bcc_fe'') (Call (Name ''Structure'') [Name ''lattice'', ListE [Str
         ''Fe'', Str ''Fe''], ListE [ListE [Num ''0'', Num ''0'', Num ''0''], ListE [Num
         ''0.5'', Num ''0.5'', Num ''0.5'']]] []),
      Assign (Name ''site0'') (Subscript (Name ''bcc_fe'') (Num ''0'')),
      ExprStmt (Attribute (Name ''site0'') ''coords''),
      ExprStmt (Attribute (Name ''site0'') ''species_string''),
      ExprStmt (Attribute (Name ''site0'') ''x''),
      Assign (Name ''bcc_fe'') (Call (Attribute (Name ''Structure'') ''from_spacegroup'')
          [Str ''Im-3m'', Call (Attribute (Name ''Lattice'') ''cubic'') [Num ''2.8''] [],
          ListE [Str ''Fe''], ListE [ListE [Num ''0'', Num ''0'', Num ''0'']]] []),
      Print [Name ''bcc_fe''],
      Assign (Name ''nacl'') (Call (Attribute (Name ''Structure'') ''from_spacegroup'')
          [Str ''Fm-3m'', Call (Attribute (Name ''Lattice'') ''cubic'') [Num ''5.692''] [],
          ListE [Str ''Na+'', Str ''Cl-''], ListE [ListE [Num ''0'', Num ''0'', Num ''0''],
          ListE [Num ''0.5'', Num ''0.5'', Num ''0.5'']]] []),
      Assign (Name ''big_structure'') (Call (Attribute (Name ''Structure'') ''from_file'')
          [Str ''Nb2O5.cif''] []),
      ExprStmt (Attribute (Name ''big_structure'') ''formula'')],

     [Assign (Name ''specie'') (DictE [(Str ''Cu0+'', Num ''0.5''), (Str ''Au0+'', Num
         ''0.5'')]),
      Assign (Name ''cu_au'') (Call (Attribute (Name ''Structure'') ''from_spacegroup'')
          [Str ''Fm-3m'', Call (Attribute (Name ''Lattice'') ''cubic'') [Num ''3.677''] [],
          ListE [Name ''specie''], ListE [ListE [Num ''0'', Num ''0'', Num ''0'']]] []),
      Print [Name ''cu_au'']],

     [Assign (Subscript (Name ''big_structure'') (Num ''0'')) (Str ''V''),
      ExprStmt (Attribute (Name ''big_structure'') ''formula''),
      Assign (Subscript (Name ''big_structure'') (Num ''0'')) (Str ''Nb''),
      ExprStmt (Call (Attribute (Name ''bcc_fe'') ''append'') [Str ''C'', ListE [Num
          ''0.25'', Num ''0.25'', Num ''0.25'']] []),
      ExprStmt (Call (Attribute (Name ''bcc_fe'') ''pop'') [Num ''-1''] []),
      ExprStmt (Call (Attribute (Name ''bcc_fe'') ''make_supercell'') [ListE [Num ''2'',
          Num ''2'', Num ''2'']] []),
      Assign (Name ''sd'') (ListE []),
      Assign (Name ''names'') (ListE []),
      ForStmt [''n''] (Call (Name ''range'') [Attribute (Name ''big_structure'')
          ''num_sites''] [])
        [IfStmt (Compare (Attribute (Subscript (Name ''big_structure'') (Name ''n''))
            ''species_string'') ''=='' (Str ''Nb''))
           [ExprStmt (Call (Attribute (Name ''sd'') ''append'') [ListE [Name ''False'',
               Name ''False'', Name ''False'']] [])]
           [ExprStmt (Call (Attribute (Name ''sd'') ''append'') [ListE [Name ''True'', Name
               ''True'', Name ''True'']] [])]],
      ExprStmt (Call (Attribute (Name ''big_structure'') ''add_site_property'') [Str
          ''selective_dynamics'', Name ''sd''] []),
      ExprStmt (Call (Attribute (Name ''big_structure'') ''to'') [] [(''filename'', Str
          ''POSCAR'')])],

     [Assign (Name ''mpr'') (Call (Name ''MPRester'') [] []),
      Assign (Name ''structure'') (Subscript (Call (Attribute (Name ''mpr'')
          ''get_structures'') [Str ''BaNiO3''] []) (Num ''0'')),
      ForStmt [''n''] (Call (Name ''range'') [Attribute (Name ''structure'') ''num_sites'']
          [])
        [IfStmt (Compare (Attribute (Subscript (Name ''structure'') (Name ''n''))
            ''species_string'') ''=='' (Str ''O''))
           [Assign (Subscript (Name ''structure'') (Name ''n'')) (Str ''F'')]
           []],
      ExprStmt (Call (Attribute (Name ''structure'') ''replace_species'') [DictE [(Str
          ''F'', Str ''O'')]] [])],

     [ImportFrom ''pymatgen.transformations.standard_transformations''
         [''SubstitutionTransformation'', ''DeformStructureTransformation'',
         ''OrderDisorderedStructureTransformation'', ''RotationTransformation''],
      Assign (Name ''structure'') (Subscript (Call (Attribute (Name ''mpr'')
          ''get_structures'') [Str ''BaNiO3''] []) (Num ''0'')),
      Assign (Name ''st'') (Call (Name ''SubstitutionTransformation'') [DictE [(Str ''O'',
          Str ''F'')]] []),
      Assign (Name ''new_structure'') (Call (Attribute (Name ''st'')
          ''apply_transformation'') [Name ''structure''] []),
      Assign (Name ''old_structure'') (Call (Attribute (Attribute (Name ''st'')
          ''inverse'') ''apply_transformation'') [Name ''new_structure''] []),
      ExprStmt (Compare (Name ''old_structure'') ''=='' (Name ''structure'')),
      Assign (Name ''odst'') (Call (Name ''OrderDisorderedStructureTransformation'') [] []),
      Assign (Name ''ss'') (Call (Attribute (Name ''odst'') ''apply_transformation'') [Name
          ''cu_au''] []),
      ExprStmt (Call (Name ''len'') [Name ''ss''] [])],

     [ImportFrom ''pymatgen.symmetry.analyzer'' [''SpacegroupAnalyzer''],
      Assign (Name ''sga'') (Call (Name ''SpacegroupAnalyzer'') [Name ''bcc_fe''] []),
      Assign (Name ''prim'') (Call (Attribute (Name ''sga'')
          ''get_primitive_standard_structure'') [] []),
      ExprStmt (Call (Attribute (Name ''sga'') ''get_conventional_standard_structure'') []
          []),
      ExprStmt (Call (Attribute (Name ''sga'') ''get_crystal_system'') [] []),
      ExprStmt (Call (Attribute (Name ''sga'') ''get_spacegroup_symbol'') [] [])],

     [ImportFrom ''pymatgen.analysis.structure_matcher'' [''StructureMatcher''],
      Assign (Name ''sm'') (Call (Name ''StructureMatcher'') [] []),
      ExprStmt (Call (Attribute (Name ''sm'') ''fit'') [Name ''bcc_fe'', Name ''prim'']
          [])],

     [Assign (Name ''query'') (Call (Attribute (Name ''mpr'') ''query'') [DictE [(Str
         ''anonymous_formula'', DictE [(Str ''A'', Num ''1''), (Str ''B'', Num ''3''), (Str
         ''C'', Num ''6'')])], DictE [(Str ''structure'', Num ''1'')]] [])],

     [Assign (Name ''structures'') (ListComp (Subscript (Name ''q'') (Str ''structure''))
         ''q'' (Name ''query'')),
      Assign (Name ''wo3'') (Call (Attribute (Name ''mpr'')
          ''get_structure_by_material_id'') [Str ''mp-33319''] []),
      Assign (Name ''sm'') (Call (Name ''StructureMatcher'') [] []),
      Assign (Name ''matches'') (ListE []),
      ForStmt [''structure''] (Name ''structures'')
        [IfStmt (Call (Attribute (Name ''sm'') ''fit_anonymous'') [Name ''structure'', Name
            ''wo3''] [])
           [ExprStmt (Call (Attribute (Name ''matches'') ''append'') [Name ''structure'']
               [])]
           []]],

     [ImportFrom ''pymatgen.analysis.diffraction.xrd'' [''XRDCalculator'',
         ''ATOMIC_SCATTERING_PARAMS''],
      ExprStmt (Attribute (Name ''XRDCalculator'') ''AVAILABLE_RADIATION''),
      Assign (Name ''xrdc'') (Call (Name ''XRDCalculator'') [] []),
      Assign (Name ''big_xrd'') (Call (Attribute (Name ''xrdc'') ''get_xrd_data'') [Name
          ''big_structure''] [])],

     [Magic ''matplotlib inline''],

     [Assign (Name ''lis_structures'') (Call (Attribute (Name ''mpr'') ''get_structures'')
         [Str ''Li-S''] []),
      Assign (Name ''data'') (Call (Attribute (Name ''xrdc'') ''get_xrd_data'') [Subscript
          (Name ''lis_structures'') (Num ''0'')] [(''two_theta_range'', ListE [Num ''10'',
          Num ''80''])]),
      ForStmt [''n'', ''lis_structure''] (Call (Name ''enumerate'') [Name
          ''lis_structures''] [])
        [Assign (Name ''data'') (Call (Attribute (Name ''xrdc'') ''get_xrd_data'') [Name
            ''lis_structure''] [(''two_theta_range'', ListE [Num ''10'', Num ''80''])]),
         IfStmt (Compare (Call (Name ''len'') [Name ''data''] []) ''=='' (Num ''8''))
           [Print [Name ''lis_structure'']]
           []]],

     [ImportFrom ''pymatgen.analysis.diffraction.xrd'' [''XRDCalculator''],
      ImportFrom ''pymatgen.electronic_structure.plotter'' [''BSPlotter'', ''DosPlotter''],
      ImportFrom ''pymatgen.electronic_structure.core'' [''OrbitalType''],
      Assign (Name ''bs'') (Call (Attribute (Name ''mpr'')
          ''get_bandstructure_by_material_id'') [Str ''mp-2657''] []),
      Print [Call (Attribute (Name ''bs'') ''get_band_gap'') [] []],
      Assign (Name ''plotter'') (Call (Name ''BSPlotter'') [Name ''bs''] []),
      Assign (Name ''dos'') (Call (Attribute (Name ''mpr'') ''get_dos_by_material_id'')
          [Str ''mp-2657''] []),
      Assign (Name ''dp'') (Call (Name ''DosPlotter'') [] []),
      Assign (Name ''dos_ti'') (Call (Attribute (Name ''dos'') ''get_element_spd_dos'')
          [Str ''Ti''] []),
      Assign (Name ''dos_o'') (Call (Attribute (Name ''dos'') ''get_element_spd_dos'') [Str
          ''O''] []),
      ExprStmt (Call (Attribute (Name ''dp'') ''add_dos'') [Str ''O p-states'', Subscript
          (Name ''dos_o'') (Attribute (Name ''OrbitalType'') ''p'')] []),
      ExprStmt (Call (Attribute (Name ''dp'') ''add_dos'') [Str ''Ti d-states'', Subscript
          (Name ''dos_ti'') (Attribute (Name ''OrbitalType'') ''d'')] [])],

     [Import ''json'',
      Assign (Name ''data'') (Call (Attribute (Name ''json'') ''load'') [Call (Name
          ''open'') [Str ''sample_elastic.json''] []] []),
      Assign (Name ''si_struct'') (Call (Attribute (Name ''Structure'') ''from_dict'')
          [Subscript (Name ''data'') (Num ''0'')] []),
      Assign (Name ''et'') (Call (Attribute (Name ''ElasticTensor'') ''from_voigt'')
          [Subscript (Name ''data'') (Num ''1'')] []),
      Print [Subscript (Name ''data'') (Num ''1'')],
      ExprStmt (Call (Attribute (Attribute (Call (Attribute (Name ''et'')
          ''fit_to_structure'') [Name ''si_struct''] []) ''voigt'') ''round'') [Num ''2'']
          [])],

     [ImportFrom ''pymatgen.symmetry.analyzer'' [''SpacegroupAnalyzer''],
      ImportFrom ''pymatgen.core.surface'' [''generate_all_slabs''],
      Assign (Name ''lattice'') (Call (Attribute (Name ''Lattice'') ''cubic'') [Num
          ''2.85''] []),
      Assign (Name ''structure'') (Call (Name ''Structure'') [Name ''lattice'', ListE [Str
          ''Fe'', Str ''Fe''], ListE [ListE [Num ''0'', Num ''0'', Num ''0''], ListE [Num
          ''0.5'', Num ''0.5'', Num ''0.5'']]] []),
      Assign (Name ''slabs'') (Call (Name ''generate_all_slabs'') [Name ''structure'', Num
          ''1'', Num ''4'', Num ''10''] []),
      Assign (Name ''first_slab'') (Subscript (Name ''slabs'') (Num ''0'')),
      ExprStmt (Attribute (Name ''first_slab'') ''miller_index''),
      ForStmt [''slab''] (Name ''slabs'')
        [Print [Attribute (Name ''slab'') ''miller_index'']]]]\<close>

subsection \<open>\<^verbatim>\<open>manual_wflow/Si_bandstructure.ipynb\<close>: twenty-one code cells\<close>

definition Si_bandstructure :: "stmt list list" where
  \<open>Si_bandstructure =
    [[Magic ''matplotlib inline'',
      Import ''pprint'',
      Import ''os'',
      Import ''tarfile'',
      Import ''glob'',
      Import ''matplotlib''],

     [ExprStmt (Call (Attribute (Name ''os'') ''mkdir'') [Str ''Si_BandStructure''] []),
      ExprStmt (Call (Attribute (Name ''os'') ''chdir'') [Str ''Si_BandStructure''] [])],

     [ImportFrom ''pymatgen.util.testing'' [''PymatgenTest''],
      Assign (Name ''struct_si'') (Call (Attribute (Name ''PymatgenTest'')
          ''get_structure'') [Str ''Si''] []),
      Print [Name ''struct_si'']],

     [ImportFrom ''pymatgen.io.vasp.inputs'' [''Poscar''],
      Assign (Name ''Pos'') (Call (Name ''Poscar'') [Name ''struct_si''] []),
      Print [Name ''Pos'']],

     [ImportFrom ''pymatgen.io.vasp.inputs'' [''Kpoints''],
      Assign (Name ''kp'') (Call (Name ''Kpoints'') [] []),
      Assign (Name ''kp'') (Call (Attribute (Name ''kp'') ''automatic_gamma_density'')
          [Name ''struct_si'', Num ''600''] []),
      Print [Name ''kp'']],

     [ImportFrom ''pymatgen.io.vasp.inputs'' [''Potcar''],
      Assign (Name ''pots'') (Call (Name ''Potcar'') [ListE [Str ''Si'']] []),
      Print [Name ''pots'']],

     [Assign (Name ''pots_lda'') (Call (Name ''Potcar'') [ListE [Str ''Si'']]
         [(''functional'', Str ''LDA'')]),
      Print [Name ''pots'']],

     [ImportFrom ''pymatgen.io.vasp.inputs'' [''Incar''],
      Assign (Name ''inc'') (Call (Name ''Incar'') [DictE [(Str ''NELM'', Num ''100''),
          (Str ''IBRION'', Num ''2''), (Str ''LWAVE'', Name ''False''), (Str ''ISMEAR'',
          Num ''-5''), (Str ''SIGMA'', Num ''0.05''), (Str ''MAGMOM'', ListE [Num ''0.6'',
          Num ''0.6'']), (Str ''ENCUT'', Num ''520''), (Str ''ISIF'', Num ''3''), (Str
          ''EDIFF'', Num ''0.0001''), (Str ''NSW'', Num ''99''), (Str ''LREAL'', Str
          ''Auto''), (Str ''PREC'', Str ''Accurate''), (Str ''ALGO'', Str ''Fast''), (Str
          ''ISPIN'', Num ''2''), (Str ''LORBIT'', Num ''11'')]] []),
      Print [Name ''inc'']],

     [ImportFrom ''pymatgen.io.vasp.sets'' [''MPRelaxSet''],
      Assign (Name ''vis'') (Call (Name ''MPRelaxSet'') [Name ''struct_si'']
          [(''force_gamma'', Name ''True'')]),
      Print [Attribute (Name ''vis'') ''poscar''],
      Print [Attribute (Name ''vis'') ''kpoints''],
      Print [Attribute (Name ''vis'') ''incar''],
      Print [Attribute (Name ''vis'') ''potcar''],
      ExprStmt (Call (Attribute (Name ''vis'') ''write_input'') [Str ''.''] [])],

     [Shell ''cp ../outputs/Si_Opt/* .'',
      Shell ''ls''],

     [ImportFrom ''pymatgen.io.vasp.outputs'' [''Vasprun''],
      Assign (Name ''vrun'') (Call (Name ''Vasprun'') [Str ''vasprun.xml''] []),
      ExprStmt (Call (Attribute (Name ''vrun'') ''as_dict'') [] [])],

     [Shell ''mkdir opt'',
      Shell ''mv * opt'',
      Shell ''ls''],

     [ImportFrom ''pymatgen.io.vasp.sets'' [''MPStaticSet''],
      Assign (Name ''static_vis'') (Call (Attribute (Name ''MPStaticSet'')
          ''from_prev_calc'') [Str ''./opt''] []),
      ExprStmt (Call (Attribute (Name ''static_vis'') ''write_input'') [Str ''.''] []),
      Shell ''ls''],

     [ImportFrom ''custodian'' [''Custodian''],
      ImportFrom ''custodian.vasp.handlers'' [''VaspErrorHandler''],
      ImportFrom ''custodian.vasp.jobs'' [''VaspJob''],
      ImportFrom ''custodian.vasp.validators'' [''VasprunXMLValidator''],
      Assign (Name ''handlers'') (ListE [Call (Name ''VaspErrorHandler'') [] []]),
      Assign (Name ''jobs'') (ListE [Call (Name ''VaspJob'') [] [(''vasp_cmd'', ListE [Str
          ''echo'', Str ''hello''])]]),
      Assign (Name ''validators'') (ListE [Call (Name ''VasprunXMLValidator'') [] []]),
      Assign (Name ''c'') (Call (Name ''Custodian'') [Name ''handlers'', Name ''jobs'',
          Name ''validators''] []),
      ExprStmt (Call (Attribute (Name ''c'') ''run'') [] [])],

     [Shell ''cp ../outputs/Si_Static/* .'',
      ExprStmt (Call (Attribute (Name ''c'') ''run'') [] [])],

     [Shell ''mkdir static'',
      Shell ''mv * static''],

     [ImportFrom ''pymatgen.io.vasp.sets'' [''MPNonSCFSet''],
      Assign (Name ''NonSCF_vis'') (Call (Attribute (Name ''MPNonSCFSet'')
          ''from_prev_calc'') [Str ''./static''] [(''mode'', Str ''Line'')]),
      Print [Attribute (Name ''NonSCF_vis'') ''kpoints'']],

     [ExprStmt (Call (Attribute (Name ''NonSCF_vis'') ''write_input'') [Str ''.''] []),
      Shell ''ls''],

     [Shell ''cp ../outputs/Si_NonSCF/* .'',
      Shell ''ls''],

     [ImportFrom ''pymatgen.io.vasp.outputs'' [''Vasprun''],
      ImportFrom ''pymatgen.electronic_structure.plotter'' [''BSPlotter''],
      Assign (Name ''vrun'') (Call (Name ''Vasprun'') [Str ''vasprun.xml''] []),
      Assign (Name ''band_struc'') (Call (Attribute (Name ''vrun'') ''get_band_structure'')
          [] [(''kpoints_filename'', Str ''KPOINTS''), (''line_mode'', Name ''True'')]),
      Assign (Name ''bs_plotter'') (Call (Name ''BSPlotter'') [Name ''band_struc''] []),
      ExprStmt (Call (Attribute (Name ''bs_plotter'') ''show'') [] [])],

     [ExprStmt (Call (Attribute (Name ''os'') ''chdir'') [Str ''..''] []),
      Shell ''rm -Rf Si_BandStructure'']]\<close>

section \<open>Reading the notebooks\<close>

subsection \<open>Calls and statements\<close>

text \<open>
  The calls of an expression in the order Python makes them: the called expression and
  the arguments are evaluated before the call itself.
\<close>

fun calls :: "expr \<Rightarrow> expr list" where
  "calls (Name n) = []"
| "calls (Str s) = []"
| "calls (Num s) = []"
| "calls (Attribute e a) = calls e"
| "calls (Call f as ks) =
     calls f @ concat (map calls as) @ concat (map (\<lambda>k. calls (snd k)) ks) @ [Call f as ks]"
| "calls (Subscript e i) = calls e @ calls i"
| "calls (ListE es) = concat (map calls es)"
| "calls (DictE kvs) = concat (map (\<lambda>kv. calls (fst kv) @ calls (snd kv)) kvs)"
| "calls (Compare l ope r) = calls l @ calls r"
| "calls (ListComp e v it) = calls it @ calls e"

text \<open>A statement together with every statement nested in it, in the order of the text.\<close>

fun stmts_of :: "stmt \<Rightarrow> stmt list" where
  "stmts_of (ForStmt vs e b) = ForStmt vs e b # concat (map stmts_of b)"
| "stmts_of (IfStmt c a b) = IfStmt c a b # concat (map stmts_of a) @ concat (map stmts_of b)"
| "stmts_of (WhileStmt c b) = WhileStmt c b # concat (map stmts_of b)"
| "stmts_of (TryStmt a b) = TryStmt a b # concat (map stmts_of a) @ concat (map stmts_of b)"
| "stmts_of (FunctionDef n ps b) = FunctionDef n ps b # concat (map stmts_of b)"
| "stmts_of (ClassDef n bs b) = ClassDef n bs b # concat (map stmts_of b)"
| "stmts_of s = [s]"

definition statements :: "stmt list list \<Rightarrow> stmt list" where
  "statements nb = concat (map stmts_of (concat nb))"

text \<open>
  The expressions a statement evaluates itself (those of nested statements belong to
  them); an assignment evaluates its value before its target.
\<close>

fun stmt_exprs :: "stmt \<Rightarrow> expr list" where
  "stmt_exprs (Assign t v) = [v, t]"
| "stmt_exprs (ExprStmt e) = [e]"
| "stmt_exprs (Print es) = es"
| "stmt_exprs (ForStmt vs e b) = [e]"
| "stmt_exprs (IfStmt c a b) = [c]"
| "stmt_exprs (WhileStmt c b) = [c]"
| "stmt_exprs (Raise e) = [e]"
| "stmt_exprs s = []"

definition notebook_calls :: "stmt list list \<Rightarrow> expr list" where
  "notebook_calls nb = concat (map calls (concat (map stmt_exprs (statements nb))))"

text \<open>
  The name a call is made by: the function or class name, or the method name of a method
  call.
\<close>

fun callee_name :: "expr \<Rightarrow> string option" where
  "callee_name (Call (Name n) as ks) = Some n"
| "callee_name (Call (Attribute e a) as ks) = Some a"
| "callee_name e = None"



subsection \<open>Kinds of statements\<close>

fun is_control :: "stmt \<Rightarrow> bool" where
  "is_control (ForStmt vs e b) = True"
| "is_control (IfStmt c a b) = True"
| "is_control (WhileStmt c b) = True"
| "is_control (TryStmt a b) = True"
| "is_control s = False"

fun is_definition :: "stmt \<Rightarrow> bool" where
  "is_definition (FunctionDef n ps b) = True"
| "is_definition (ClassDef n bs b) = True"
| "is_definition s = False"

fun is_error_handling :: "stmt \<Rightarrow> bool" where
  "is_error_handling (TryStmt a b) = True"
| "is_error_handling (Raise e) = True"
| "is_error_handling s = False"

fun is_state_machine_loop :: "stmt \<Rightarrow> bool" where
  "is_state_machine_loop (WhileStmt c b) = True"
| "is_state_machine_loop s = False"

text \<open>A cell is straight-line when none of its statements branches, loops or defines.\<close>

definition straight_line :: "stmt list \<Rightarrow> bool" where
  "straight_line cell = list_all (\<lambda>s. \<not> is_control s \<and> \<not> is_definition s) cell"

fun stmt_kind :: "stmt \<Rightarrow> string" where
  "stmt_kind (Import m) = ''import''"
| "stmt_kind (ImportFrom m ns) = ''from''"
| "stmt_kind (Assign t v) = ''assign''"
| "stmt_kind (ExprStmt e) = ''expr''"
| "stmt_kind (Print es) = ''print''"
| "stmt_kind (ForStmt vs e b) = ''for''"
| "stmt_kind (IfStmt c a b) = ''if''"
| "stmt_kind (WhileStmt c b) = ''while''"
| "stmt_kind (TryStmt a b) = ''try''"
| "stmt_kind (Raise e) = ''raise''"
| "stmt_kind (FunctionDef n ps b) = ''def''"
| "stmt_kind (ClassDef n bs b) = ''class''"
| "stmt_kind (Magic m) = ''magic''"
| "stmt_kind (Shell c) = ''shell''"

subsection \<open>Names and where they come from\<close>










subsection \<open>The operations the specification lists\<close>

text \<open>
  The seven operations of the specification's sequence, and the library entry points of
  the notebook that stand for each: the class or function name, and the methods called on
  its instances.
\<close>

datatype operation =
    OpLattice | OpStructure | OpSymmetry | OpMatcher | OpDiffraction | OpTensorFit | OpSurface

definition spec_order :: "operation list" where
  "spec_order = [OpLattice, OpStructure, OpSymmetry, OpMatcher, OpDiffraction, OpTensorFit, OpSurface]"

definition operation_names :: "(string \<times> operation) list" where
  "operation_names =
     [(''Lattice'', OpLattice), (''from_lengths_and_angles'', OpLattice), (''cubic'', OpLattice),
      (''hexagonal'', OpLattice), (''rhombohedral'', OpLattice),
      (''Structure'', OpStructure), (''from_spacegroup'', OpStructure),
      (''from_file'', OpStructure), (''from_dict'', OpStructure),
      (''SpacegroupAnalyzer'', OpSymmetry), (''get_primitive_standard_structure'', OpSymmetry),
      (''get_conventional_standard_structure'', OpSymmetry), (''get_crystal_system'', OpSymmetry),
      (''get_spacegroup_symbol'', OpSymmetry),
      (''StructureMatcher'', OpMatcher), (''fit'', OpMatcher), (''fit_anonymous'', OpMatcher),
      (''XRDCalculator'', OpDiffraction), (''get_xrd_data'', OpDiffraction),
      (''fit_to_structure'', OpTensorFit),
      (''generate_all_slabs'', OpSurface)]"

definition operation_of :: "string option \<Rightarrow> operation option" where
  "operation_of n = Option.bind n (map_of operation_names)"

definition callees :: "stmt list list \<Rightarrow> string option list" where
  "callees nb = map callee_name (notebook_calls nb)"


definition op_trace :: "stmt list list \<Rightarrow> operation list" where
  "op_trace nb = List.map_filter operation_of (callees nb)"

fun op_rank :: "operation \<Rightarrow> nat" where
  "op_rank OpLattice = 0"
| "op_rank OpStructure = 1"
| "op_rank OpSymmetry = 2"
| "op_rank OpMatcher = 3"
| "op_rank OpDiffraction = 4"
| "op_rank OpTensorFit = 5"
| "op_rank OpSurface = 6"

text \<open>The distinct elements of a list in the order of their first occurrence.\<close>

fun first_occurrences :: "'a list \<Rightarrow> 'a list \<Rightarrow> 'a list" where
  "first_occurrences seen [] = []"
| "first_occurrences seen (x # xs) =
     (if x \<in> set seen then first_occurrences seen xs else x # first_occurrences (x # seen) xs)"

section \<open>The file system during a run of \<^verbatim>\<open>Si_bandstructure\<close>\<close>





datatype py_error = OSError | LibraryError | Unsupported


subsection \<open>Path names\<close>







subsection \<open>Python's \<^verbatim>\<open>os\<close> calls\<close>



subsection \<open>Shell command lines\<close>










subsection \<open>Running the cells\<close>













section \<open>Properties of the submission script\<close>

lemma parsed_submit_script:
  \<open>map parse_line submit_script =
    [Shebang ''/bin/bash'',
     Directive [''-q'', ''glean''],
     Directive [''-N'', ''job''],
     Directive [''-l'', ''nodes=1:ppn=24:haswell''],
     Directive [''-l'', ''walltime=24:00:00''],
     Directive [''-o'', ''run_vasp.out''],
     Directive [''-e'', ''job.err''],
     Directive [''-V''],
     Directive [''-M'', ''ongsp@ucsd.edu''],
     Directive [''-m'', ''a''],
     Directive [''-A'', ''ong-group''],
     Directive [''-d'', ''/home/ongsp/Li2O/Au''],
     Blank,
     Command [''module'', ''load'', ''vasp'', ''scipy/2.7''],
     Command [''run_vasp'', ''-c'',
       ''mpirun -machinefile $PBS_NODEFILE -np 24 /opt/vasp/5.4.1/bin/vasp'',
       ''-z'', ''-s'', ''/oasis/tscc/scratch/ongsp'', ''relax'', ''relax'']]\<close>
  by (simp add: submit_script_def parse_line_def sh_words_def)

lemma directives_submit_script:
  \<open>directives submit_script =
    [[''-q'', ''glean''], [''-N'', ''job''], [''-l'', ''nodes=1:ppn=24:haswell''],
     [''-l'', ''walltime=24:00:00''], [''-o'', ''run_vasp.out''], [''-e'', ''job.err''],
     [''-V''], [''-M'', ''ongsp@ucsd.edu''], [''-m'', ''a''], [''-A'', ''ong-group''],
     [''-d'', ''/home/ongsp/Li2O/Au'']]\<close>
  using parsed_submit_script
  by (simp add: directives_def List.map_filter_def submit_script_def)

lemma commands_submit_script:
  \<open>commands submit_script =
    [[''module'', ''load'', ''vasp'', ''scipy/2.7''],
     [''run_vasp'', ''-c'',
       ''mpirun -machinefile $PBS_NODEFILE -np 24 /opt/vasp/5.4.1/bin/vasp'',
       ''-z'', ''-s'', ''/oasis/tscc/scratch/ongsp'', ''relax'', ''relax'']]\<close>
  using parsed_submit_script
  by (simp add: commands_def List.map_filter_def submit_script_def)

lemma launch_lines_submit_script:
  \<open>launch_lines submit_script =
    [[''mpirun'', ''-machinefile'', ''$PBS_NODEFILE'', ''-np'', ''24'', ''/opt/vasp/5.4.1/bin/vasp'']]\<close>
  by (simp add: launch_lines_def commands_submit_script List.map_filter_def sh_words_def)

lemma resources_submit_script:
  \<open>resources submit_script = [''nodes=1:ppn=24:haswell'', ''walltime=24:00:00'']\<close>
  by (simp add: resources_def directives_submit_script List.map_filter_def)

lemma node_spec_submit_script:
  \<open>node_spec submit_script = [''1'', ''ppn=24'', ''haswell'']\<close>
  by (simp add: node_spec_def resources_submit_script key_value_def)

lemma directive_flags_submit_script:
  \<open>directive_flags submit_script =
    [''-q'', ''-N'', ''-l'', ''-l'', ''-o'', ''-e'', ''-V'', ''-M'', ''-m'', ''-A'', ''-d'']\<close>
  by (simp add: directive_flags_def directives_submit_script)


text \<open>
  C1, as stated, fails: the script does not declare exactly the listed parameters
  (\<^verbatim>\<open>-N\<close>, \<^verbatim>\<open>-V\<close> and \<^verbatim>\<open>-A\<close> are declared too), and it runs two command lines,
  not one.
\<close>

theorem exactly_listed_and_one_command_counterexample:
  "\<not> (set (directive_flags submit_script) = set spec_listed_flags
      \<and> length (commands submit_script) = 1)"
  by (simp add: commands_submit_script)

text \<open>
  C1, amended. Every parameter the specification lists is declared by a directive, with
  the values below; the directives also name the job (\<^verbatim>\<open>-N\<close>), export the
  environment (\<^verbatim>\<open>-V\<close>) and name an account (\<^verbatim>\<open>-A\<close>). Beyond the directives the
  script runs two command lines, \<^verbatim>\<open>module load\<close> and \<^verbatim>\<open>run_vasp\<close>; the latter is
  given one launch line, which starts the single binary \<^verbatim>\<open>/opt/vasp/5.4.1/bin/vasp\<close>
  under \<^verbatim>\<open>mpirun\<close>.
\<close>

theorem submit_script_declarations:
  \<open>directives submit_script =
     [[''-q'', ''glean''], [''-N'', ''job''], [''-l'', ''nodes=1:ppn=24:haswell''],
      [''-l'', ''walltime=24:00:00''], [''-o'', ''run_vasp.out''], [''-e'', ''job.err''],
      [''-V''], [''-M'', ''ongsp@ucsd.edu''], [''-m'', ''a''], [''-A'', ''ong-group''],
      [''-d'', ''/home/ongsp/Li2O/Au'']]
   \<and> list_all (\<lambda>f. f \<in> set (directive_flags submit_script)) spec_listed_flags
   \<and> filter (\<lambda>f. f \<notin> set spec_listed_flags) (directive_flags submit_script)
       = [''-N'', ''-V'', ''-A'']
   \<and> map (take 2) (commands submit_script) = [[''module'', ''load''], [''run_vasp'', ''-c'']]
   \<and> launch_lines submit_script =
       [[''mpirun'', ''-machinefile'', ''$PBS_NODEFILE'', ''-np'', ''24'',
         ''/opt/vasp/5.4.1/bin/vasp'']]\<close>
proof -
  have "list_all (\<lambda>f. f \<in> set (directive_flags submit_script)) spec_listed_flags"
    by (simp add: directive_flags_submit_script spec_listed_flags_def)
  moreover have "filter (\<lambda>f. f \<notin> set spec_listed_flags) (directive_flags submit_script)
       = [''-N'', ''-V'', ''-A'']"
    by (simp add: directive_flags_submit_script spec_listed_flags_def)
  moreover have "map (take 2) (commands submit_script) = [[''module'', ''load''], [''run_vasp'', ''-c'']]"
    by (simp add: commands_submit_script)
  ultimately show ?thesis
    using directives_submit_script launch_lines_submit_script by simp
qed


text \<open>
  C7. No line of the script puts a process in the background, waits for or signals a
  process, or installs a signal trap: the character \<^verbatim>\<open>&\<close> occurs nowhere, and no
  word of a command is one of the job-control commands.
\<close>

theorem submit_script_no_job_control:
  "list_all no_job_control submit_script
   \<and> list_all (\<lambda>ws. \<not> list_ex (\<lambda>w. w \<in> set sh_job_words) ws) (commands submit_script)
   \<and> list_all (\<lambda>ws. \<not> list_ex (\<lambda>w. w \<in> set sh_job_words) ws) (launch_lines submit_script)"
proof -
  have "list_all no_job_control submit_script"
    unfolding list_all_iff no_job_control_def
    using parsed_submit_script
    by (simp add: submit_script_def sh_job_words_def)
  moreover have "list_all (\<lambda>ws. \<not> list_ex (\<lambda>w. w \<in> set sh_job_words) ws) (commands submit_script)"
    by (simp add: commands_submit_script sh_job_words_def)
  moreover have "list_all (\<lambda>ws. \<not> list_ex (\<lambda>w. w \<in> set sh_job_words) ws) (launch_lines submit_script)"
    by (simp add: launch_lines_submit_script sh_job_words_def)
  ultimately show ?thesis by simp
qed

text \<open>
  C8. The process count on the launch line equals the core allocation requested from the
  scheduler: \<^verbatim>\<open>-np 24\<close> against \<^verbatim>\<open>nodes=1\<close> times \<^verbatim>\<open>ppn=24\<close>.
\<close>

theorem np_equals_requested_cores:
  "mpirun_np submit_script = requested_cores submit_script
   \<and> pbs_nodes submit_script = Some 1
   \<and> pbs_ppn submit_script = Some 24
   \<and> mpirun_np submit_script = Some 24"
  by (simp add: mpirun_np_def requested_cores_def pbs_nodes_def pbs_ppn_def key_value_def
      launch_lines_submit_script node_spec_submit_script nat_of_string_def digit_val_def)

section \<open>Properties of the notebooks\<close>

lemma no_definitions_in_notebooks:
  "list_all (\<lambda>s. \<not> is_definition s \<and> \<not> is_state_machine_loop s \<and> \<not> is_error_handling s)
     (statements pymatgen_core)
   \<and> list_all (\<lambda>s. \<not> is_definition s \<and> \<not> is_state_machine_loop s \<and> \<not> is_error_handling s)
     (statements Si_bandstructure)"
  by code_simp



lemma op_trace_pymatgen_core:
  "op_trace pymatgen_core =
    [OpLattice, OpLattice, OpLattice, OpLattice, OpLattice, OpStructure,
     OpLattice, OpStructure, OpLattice, OpStructure, OpStructure, OpLattice,
     OpStructure, OpSymmetry, OpSymmetry, OpSymmetry, OpSymmetry, OpSymmetry,
     OpMatcher, OpMatcher, OpMatcher, OpMatcher, OpDiffraction, OpDiffraction,
     OpDiffraction, OpDiffraction, OpStructure, OpTensorFit, OpLattice,
     OpStructure, OpSurface]"
  by code_simp

lemma op_trace_by_cell:
  "map (\<lambda>c. op_trace [c]) pymatgen_core =
      [[], [OpLattice, OpLattice, OpLattice, OpLattice, OpLattice],
       [OpStructure, OpLattice, OpStructure, OpLattice, OpStructure, OpStructure],
       [OpLattice, OpStructure], [], [], [],
       [OpSymmetry, OpSymmetry, OpSymmetry, OpSymmetry, OpSymmetry],
       [OpMatcher, OpMatcher], [], [OpMatcher, OpMatcher],
       [OpDiffraction, OpDiffraction], [], [OpDiffraction, OpDiffraction], [],
       [OpStructure, OpTensorFit], [OpLattice, OpStructure, OpSurface]]"
  by code_simp

lemma kinds_of_control_statements:
  "map stmt_kind (filter is_control (statements pymatgen_core)) =
       [''for'', ''if'', ''for'', ''if'', ''for'', ''if'', ''for'', ''if'', ''for'']"
  by code_simp

lemma straight_line_cells:
  "map straight_line pymatgen_core =
       [True, True, True, True, False, False, True, True, True, True, False, True, True,
        False, True, True, False]
   \<and> list_all straight_line Si_bandstructure
   \<and> list_all (\<lambda>s. \<not> is_control s) (statements Si_bandstructure)"
  by code_simp







text \<open>
  C4, as stated, fails: the seven operations all occur, but not in non-decreasing order of
  the list. Lattices and structures are constructed again in the tensor and surface
  cells, after the symmetry analyzer, the matcher and the diffraction calculator.
\<close>

theorem operations_in_order_counterexample:
  "\<not> (set (op_trace pymatgen_core) = set spec_order
      \<and> sorted (map op_rank (op_trace pymatgen_core)))"
  by (simp add: op_trace_pymatgen_core)

text \<open>
  C4, amended. Each of the seven operations occurs in the notebook, and their first
  occurrences follow the order of the specification: lattice, structure, symmetry
  analyzer, structure matcher, diffraction calculator, tensor fitting, surface generation.
  The second part lists the operations cell by cell.
\<close>

theorem operations_first_occurrences:
  "first_occurrences [] (op_trace pymatgen_core) = spec_order
   \<and> map (\<lambda>c. op_trace [c]) pymatgen_core =
      [[], [OpLattice, OpLattice, OpLattice, OpLattice, OpLattice],
       [OpStructure, OpLattice, OpStructure, OpLattice, OpStructure, OpStructure],
       [OpLattice, OpStructure], [], [], [],
       [OpSymmetry, OpSymmetry, OpSymmetry, OpSymmetry, OpSymmetry],
       [OpMatcher, OpMatcher], [], [OpMatcher, OpMatcher],
       [OpDiffraction, OpDiffraction], [], [OpDiffraction, OpDiffraction], [],
       [OpStructure, OpTensorFit], [OpLattice, OpStructure, OpSurface]]"
proof -
  have "first_occurrences [] (op_trace pymatgen_core) = spec_order"
    by (simp add: op_trace_pymatgen_core spec_order_def)
  then show ?thesis
    using op_trace_by_cell by simp
qed



text \<open>
  C6, as stated, fails: five cells of \<^verbatim>\<open>pymatgen_core\<close> hold a loop.
\<close>

theorem every_cell_straight_line_counterexample:
  "\<not> (list_all straight_line pymatgen_core \<and> list_all straight_line Si_bandstructure)"
  by code_simp

text \<open>
  C6, amended. Every code cell of \<^verbatim>\<open>Si_bandstructure\<close> is a straight-line sequence of
  statements, and so are twelve of the seventeen code cells of \<^verbatim>\<open>pymatgen_core\<close>. The
  other five (the fifth, sixth, eleventh, fourteenth and seventeenth) hold one
  \<^verbatim>\<open>for\<close> loop each, four of them with one \<^verbatim>\<open>if\<close> inside. No cell of either
  notebook defines a function or a class.
\<close>

theorem notebook_control_flow:
  "list_all straight_line Si_bandstructure
   \<and> map straight_line pymatgen_core =
       [True, True, True, True, False, False, True, True, True, True, False, True, True,
        False, True, True, False]
   \<and> map stmt_kind (filter is_control (statements pymatgen_core)) =
       [''for'', ''if'', ''for'', ''if'', ''for'', ''if'', ''for'', ''if'', ''for'']
   \<and> list_all (\<lambda>s. \<not> is_control s) (statements Si_bandstructure)
   \<and> list_all (\<lambda>s. \<not> is_definition s) (statements pymatgen_core)
   \<and> list_all (\<lambda>s. \<not> is_definition s) (statements Si_bandstructure)"
proof -
  have "list_all (\<lambda>s. \<not> is_definition s) (statements pymatgen_core)"
    using no_definitions_in_notebooks by (simp add: list_all_iff)
  moreover have "list_all (\<lambda>s. \<not> is_definition s) (statements Si_bandstructure)"
    using no_definitions_in_notebooks by (simp add: list_all_iff)
  ultimately show ?thesis
    using kinds_of_control_statements straight_line_cells by blast
qed

section \<open>The frame of a run of \<^verbatim>\<open>Si_bandstructure\<close>\<close>

subsection \<open>Paths\<close>







subsection \<open>Each shell command stays in the working directory\<close>







subsection \<open>Statements that are no \<^verbatim>\<open>os\<close> call stay in the working directory\<close>






subsection \<open>The three parts of the notebook\<close>















subsection \<open>A run completes when the libraries do not raise\<close>






end
